theory Spec2Isabelle
  imports Main "HOL-Library.Sublist"
begin

section \<open>Python strings\<close>

text \<open>
  A Python \<open>str\<close> is modelled as a \<open>string\<close>; a \<open>char\<close> stands for a code point
  below 256. \<open>whitespace\<close> lists the code points below 256 for which
  \<open>str.isspace\<close> is true; \<open>str.strip()\<close> without argument removes exactly these
  from both ends.
\<close>

definition whitespace :: "char list" where
  "whitespace =
     [CHR 0x09, CHR 0x0A, CHR 0x0B, CHR 0x0C, CHR 0x0D,
      CHR 0x1C, CHR 0x1D, CHR 0x1E, CHR 0x1F, CHR 0x20, CHR 0x85, CHR 0xA0]"

definition isspace :: "char \<Rightarrow> bool" where
  "isspace c = (c \<in> set whitespace)"

definition strip :: "string \<Rightarrow> string" where
  "strip s = rev (dropWhile isspace (rev (dropWhile isspace s)))"

definition startswith :: "string \<Rightarrow> string \<Rightarrow> bool" where
  "startswith s p = (take (length p) s = p)"

text \<open>\<open>sep.join(xs)\<close>\<close>

fun join :: "string \<Rightarrow> string list \<Rightarrow> string" where
  "join sep [] = []"
| "join sep [x] = x"
| "join sep (x # y # ys) = x @ sep @ join sep (y # ys)"

section \<open>Errors\<close>

text \<open>
  Every exception the notebook can raise is a value. \<open>RequestException\<close>,
  \<open>ParserRejectedMarkup\<close> and \<open>APIError\<close> are raised inside the three library
  calls (\<open>requests.get\<close>, \<open>BeautifulSoup(...)\<close>, \<open>chat.completions.create\<close>);
  \<open>ValueError\<close> is raised by the key check; \<open>IndexError\<close>, \<open>TypeError\<close> and
  \<open>AttributeError\<close> are Python's own errors of the unchecked access
  \<open>response.choices[0].message.content.strip()\<close>.
\<close>

datatype error =
    ValueError string
  | RequestException string
  | ParserRejectedMarkup
  | APIError string
  | IndexError
  | TypeError
  | AttributeError

fun is_api_error :: "error \<Rightarrow> bool" where
  "is_api_error (APIError m) = True"
| "is_api_error e = False"

section \<open>The key check of the second cell\<close>

text \<open>
  \<^verbatim>\<open>
  api_key = os.getenv("OPENAI_API_KEY")
  if not api_key:
      raise ValueError("OPENAI_API_KEY environment variable is not set.")
  elif not api_key.startswith("sk-"):
      raise ValueError("OPENAI_API_KEY must start with 'sk-'.")
  elif api_key.strip() != api_key:
      raise ValueError("OPENAI_API_KEY must not contain leading or trailing whitespace.")
  else:
      print("OPENAI_API_KEY is set and valid.")
  \<close>
  \<open>os.getenv\<close> returns \<open>None\<close> or a string; \<open>not api_key\<close> holds for \<open>None\<close> and
  for the empty string. The result is the error raised or the line printed.
\<close>

definition check_api_key :: "string option \<Rightarrow> error + string" where
  "check_api_key api_key =
     (case api_key of
        None \<Rightarrow> Inl (ValueError ''OPENAI_API_KEY environment variable is not set.'')
      | Some k \<Rightarrow>
          if k = [] then
            Inl (ValueError ''OPENAI_API_KEY environment variable is not set.'')
          else if \<not> startswith k ''sk-'' then
            Inl (ValueError (''OPENAI_API_KEY must start with '' @ [CHR 0x27] @ ''sk-'' @ [CHR 0x27] @ ''.''))
          else if strip k \<noteq> k then
            Inl (ValueError ''OPENAI_API_KEY must not contain leading or trailing whitespace.'')
          else Inr ''OPENAI_API_KEY is set and valid.'')"

section \<open>The document tree of BeautifulSoup\<close>

text \<open>
  The parsed document: a \<open>Tag\<close> has a name and its \<open>contents\<close>; the other nodes
  are strings, told apart by their class as the library does:
  \<^item> \<open>NavigableString\<close> is a plain text node (a \<open>CData\<close> section counts as one);
  \<^item> \<open>TemplateString\<close> stands for text that the library keeps in a class of its own
    because of the element it is in: the text inside template and ruby annotation
    elements, in the versions of the library that have these classes (the text
    inside script and style elements is kept so as well);
  \<^item> \<open>Comment\<close> stands for the strings that are not text of the page: comments,
    doctype, declarations, processing instructions.

  All three are strings for \<open>.string\<close>; \<open>get_text\<close> takes the first class only. The
  \<open>BeautifulSoup\<close> object itself is the \<open>Tag\<close> at the root. Attributes are left out:
  no line of the notebook reads one. The parser is not modelled: it is a parameter of
  the world below, and the properties of the extraction are stated for every tree.
\<close>

datatype node =
    Tag string "node list"
  | NavigableString string
  | TemplateString string
  | Comment string

text \<open>\<open>.descendants\<close>: every node below this one, in document order.\<close>

fun descendants :: "node \<Rightarrow> node list" where
  "descendants (Tag n cs) = concat (map (\<lambda>c. c # descendants c) cs)"
| "descendants (NavigableString s) = []"
| "descendants (TemplateString s) = []"
| "descendants (Comment s) = []"

fun is_named :: "string list \<Rightarrow> node \<Rightarrow> bool" where
  "is_named names (Tag n cs) = (n \<in> set names)"
| "is_named names (NavigableString s) = False"
| "is_named names (TemplateString s) = False"
| "is_named names (Comment s) = False"

text \<open>\<open>soup([...])\<close> is \<open>find_all\<close>: the descendant tags with one of the names.\<close>

definition find_all :: "string list \<Rightarrow> node \<Rightarrow> node list" where
  "find_all names soup = filter (is_named names) (descendants soup)"

text \<open>\<open>soup.title\<close> is \<open>soup.find("title")\<close>: the first such tag, or \<open>None\<close>.\<close>

definition find :: "string \<Rightarrow> node \<Rightarrow> node option" where
  "find name soup = (case find_all [name] soup of [] \<Rightarrow> None | t # ts \<Rightarrow> Some t)"

text \<open>
  \<open>Tag.string\<close>: with exactly one child, that child when it is a string, the child's
  own \<open>.string\<close> when it is a tag; \<open>None\<close> with no child or several.
\<close>

fun string_of :: "node \<Rightarrow> node option" where
  "string_of (Tag n [Tag m cs]) = string_of (Tag m cs)"
| "string_of (Tag n [NavigableString s]) = Some (NavigableString s)"
| "string_of (Tag n [TemplateString s]) = Some (TemplateString s)"
| "string_of (Tag n [Comment s]) = Some (Comment s)"
| "string_of t = None"

text \<open>
  The loop \<open>for irrelevant in soup([...]): irrelevant.decompose()\<close>: the list of
  matches is taken once, in document order, and every tag on it is detached from its
  parent and destroyed with all that is below it; a match inside an earlier match is
  gone with it, and decomposing it again changes nothing. What is left is the tree
  without any descendant tag of one of the names. The root is not among its own
  descendants and stays.
\<close>

fun decompose_all :: "string list \<Rightarrow> node \<Rightarrow> node" where
  "decompose_all names (Tag n cs) =
     Tag n (map (decompose_all names) (filter (\<lambda>c. \<not> is_named names c) cs))"
| "decompose_all names (NavigableString s) = NavigableString s"
| "decompose_all names (TemplateString s) = TemplateString s"
| "decompose_all names (Comment s) = Comment s"

text \<open>
  \<open>get_text(separator, strip=True)\<close>: the descendant strings of class
  \<open>NavigableString\<close>, each stripped, the ones left empty dropped, joined by the
  separator.
\<close>

fun text_nodes :: "node list \<Rightarrow> string list" where
  "text_nodes [] = []"
| "text_nodes (NavigableString s # ds) = s # text_nodes ds"
| "text_nodes (d # ds) = text_nodes ds"

definition all_strings :: "node \<Rightarrow> string list" where
  "all_strings soup = text_nodes (descendants soup)"

definition stripped_strings :: "node \<Rightarrow> string list" where
  "stripped_strings soup = filter (\<lambda>s. s \<noteq> []) (map strip (all_strings soup))"

definition get_text :: "string \<Rightarrow> node \<Rightarrow> string" where
  "get_text separator soup = join separator (stripped_strings soup)"

section \<open>The class Website\<close>

record Website =
  url :: string
  title :: "string option"
  content :: string

definition irrelevant :: "string list" where
  "irrelevant = [''script'', ''style'', ''img'', ''input'']"

text \<open>
  Lines 3 to 6 of \<open>__init__\<close>, on the parsed document:
  \<^verbatim>\<open>
  self.title = soup.title.string if soup.title else "No title found"
  for irrelevant in soup(['script', 'style', 'img', 'input']):
      irrelevant.decompose()
  self.content = soup.get_text(separator=' \n', strip=True)
  \<close>
  A \<open>Tag\<close> is always true, so the test is on the presence of the tag. The title is
  \<open>None\<close> where \<open>.string\<close> is.
\<close>

definition soup_title :: "node \<Rightarrow> string option" where
  "soup_title soup =
     (case find ''title'' soup of
        None \<Rightarrow> Some ''No title found''
      | Some t \<Rightarrow>
          (case string_of t of
             Some (NavigableString s) \<Rightarrow> Some s
           | Some (TemplateString s) \<Rightarrow> Some s
           | Some (Comment s) \<Rightarrow> Some s
           | _ \<Rightarrow> None))"

definition soup_content :: "node \<Rightarrow> string" where
  "soup_content soup = get_text '' \<newline>'' (decompose_all irrelevant soup)"

definition Website_of_soup :: "string \<Rightarrow> node \<Rightarrow> Website" where
  "Website_of_soup u soup = \<lparr>url = u, title = soup_title soup, content = soup_content soup\<rparr>"

section \<open>The prompts\<close>

text \<open>
  The backslash at the end of a line inside the literal continues it, so the constant
  has no line break.
\<close>

definition system_prompt :: string where
  "system_prompt =
     ''You are an assistant that analyzes the contents of a website '' @
     ''and provides a short summary, ignoring text that might be navigation related. '' @
     ''Respond in markdown.''"

text \<open>What an f-string writes for \<open>{website.title}\<close>: \<open>str(None)\<close> is \<open>None\<close>.\<close>

fun format_title :: "string option \<Rightarrow> string" where
  "format_title None = ''None''"
| "format_title (Some t) = t"

definition user_instruction :: string where
  "user_instruction =
     ''\<newline>The contents of this website is as follows; '' @
     ''please provide a short summary of this website in markdown. '' @
     ''If it includes news or announcements, then summarize these too.\<newline>\<newline>''"

definition user_prompt_for :: "Website \<Rightarrow> string" where
  "user_prompt_for website =
     (''You are looking at a website titled '' @ format_title (title website))
       @ user_instruction
       @ content website"

text \<open>A message is the dictionary literal of the source, keys in its order.\<close>

type_synonym message = "(string \<times> string) list"

definition message_for :: "Website \<Rightarrow> message list" where
  "message_for website =
     [[(''role'', ''system''), (''content'', system_prompt)],
      [(''role'', ''user''), (''content'', user_prompt_for website)]]"

section \<open>The calls that leave the process\<close>

text \<open>
  The response of the chat endpoint, as far as the notebook reads it:
  \<open>response.choices[0].message.content\<close>. The content of a message is optional in
  the client library, and \<open>choices\<close> may be missing from a malformed response.
\<close>

datatype ChatCompletionMessage = ChatCompletionMessage (message_content: "string option")

datatype Choice = Choice (message: ChatCompletionMessage)

datatype ChatCompletion = ChatCompletion (choices: "Choice list option")

text \<open>
  The world outside: the environment variables, the HTTP client, the HTML parser and
  the chat endpoint. Each call returns its value or the exception it raises.
  \<open>requests_get\<close> gives \<open>response.content\<close>; the source does not look at the status.
\<close>

record world =
  getenv :: "string \<Rightarrow> string option"
  requests_get :: "string \<Rightarrow> error + string"
  html_parser :: "string \<Rightarrow> error + node"
  chat_completions_create :: "string \<Rightarrow> message list \<Rightarrow> error + ChatCompletion"

text \<open>The log records, in order, which stage was entered.\<close>

datatype event =
    Called_requests_get string
  | Called_message_for
  | Called_create string "message list"

text \<open>
  \<^verbatim>\<open>
  def __init__(self, url: str):
      self.url = url
      response = requests.get(url)
      soup = BeautifulSoup(response.content, 'html.parser')
      ...
  \<close>
\<close>

definition Website_init :: "world \<Rightarrow> string \<Rightarrow> event list \<Rightarrow> (error + Website) \<times> event list" where
  "Website_init w u log =
     (let log1 = log @ [Called_requests_get u] in
      case requests_get w u of
        Inl e \<Rightarrow> (Inl e, log1)
      | Inr html \<Rightarrow>
          (case html_parser w html of
             Inl e \<Rightarrow> (Inl e, log1)
           | Inr soup \<Rightarrow> (Inr (Website_of_soup u soup), log1)))"

text \<open>\<open>response.choices[0].message.content.strip()\<close>\<close>

definition summary_of :: "ChatCompletion \<Rightarrow> error + string" where
  "summary_of response =
     (case choices response of
        None \<Rightarrow> Inl TypeError
      | Some [] \<Rightarrow> Inl IndexError
      | Some (c # cs) \<Rightarrow>
          (case message_content (message c) of
             None \<Rightarrow> Inl AttributeError
           | Some s \<Rightarrow> Inr (strip s)))"

text \<open>
  \<^verbatim>\<open>
  def summarize_website(url):
      website = Website(url)
      messages = message_for(website)
      response = openai.chat.completions.create(model="gpt-4o-mini", messages=messages)
      summary = response.choices[0].message.content.strip()
      return summary
  \<close>
\<close>

definition summarize_website :: "world \<Rightarrow> string \<Rightarrow> event list \<Rightarrow> (error + string) \<times> event list" where
  "summarize_website w u log =
     (case Website_init w u log of
        (Inl e, log1) \<Rightarrow> (Inl e, log1)
      | (Inr website, log1) \<Rightarrow>
          (let messages = message_for website;
               log2 = log1 @ [Called_message_for, Called_create ''gpt-4o-mini'' messages]
           in case chat_completions_create w ''gpt-4o-mini'' messages of
                Inl e \<Rightarrow> (Inl e, log2)
              | Inr response \<Rightarrow> (summary_of response, log2)))"

text \<open>\<open>display_summary\<close> gives the markdown it displays.\<close>

definition display_summary :: "world \<Rightarrow> string \<Rightarrow> event list \<Rightarrow> (error + string) \<times> event list" where
  "display_summary w u log =
     (case summarize_website w u log of
        (Inl e, log1) \<Rightarrow> (Inl e, log1)
      | (Inr summary, log1) \<Rightarrow>
          (Inr (''### Summary of '' @ u @ ''\<newline>\<newline>'' @ summary), log1))"

text \<open>
  The cells of the notebook run from top to bottom, stopping at the first exception:
  the key check, \<open>page = Website(...)\<close>, \<open>message_for(page)\<close>, and the two calls of
  \<open>display_summary\<close>. The result is the list of displayed summaries.
\<close>

definition run_all :: "world \<Rightarrow> (error + string list) \<times> event list" where
  "run_all w =
     (case check_api_key (getenv w ''OPENAI_API_KEY'') of
        Inl e \<Rightarrow> (Inl e, [])
      | Inr printed \<Rightarrow>
          (case Website_init w ''https://books.toscrape.com/'' [] of
             (Inl e, log1) \<Rightarrow> (Inl e, log1)
           | (Inr page, log1) \<Rightarrow>
               (case display_summary w ''https://books.toscrape.com/'' (log1 @ [Called_message_for]) of
                  (Inl e, log2) \<Rightarrow> (Inl e, log2)
                | (Inr d1, log2) \<Rightarrow>
                    (case display_summary w ''https://www.cnn.com/'' log2 of
                       (Inl e, log3) \<Rightarrow> (Inl e, log3)
                     | (Inr d2, log3) \<Rightarrow> (Inr [d1, d2], log3)))))"

section \<open>The specification's wording, for comparison\<close>

text \<open>
  The plain text nodes that remain when the tree is walked without entering an element
  of a removed kind.
\<close>

fun plain_text :: "node \<Rightarrow> string list" where
  "plain_text (Tag n cs) =
     (if n \<in> set irrelevant then [] else concat (map plain_text cs))"
| "plain_text (NavigableString s) = [s]"
| "plain_text (TemplateString s) = []"
| "plain_text (Comment s) = []"

fun fragments :: "node \<Rightarrow> string list" where
  "fragments (Tag n cs) = concat (map plain_text cs)"
| "fragments (NavigableString s) = []"
| "fragments (TemplateString s) = []"
| "fragments (Comment s) = []"

text \<open>
  The remaining text as the specification words it: every text node outside the
  elements of the removed kinds, of whichever class the library gives it. A comment is
  not text of the page.
\<close>

fun remaining_text :: "node \<Rightarrow> string list" where
  "remaining_text (Tag n cs) =
     (if n \<in> set irrelevant then [] else concat (map remaining_text cs))"
| "remaining_text (NavigableString s) = [s]"
| "remaining_text (TemplateString s) = [s]"
| "remaining_text (Comment s) = []"

fun text_fragments :: "node \<Rightarrow> string list" where
  "text_fragments (Tag n cs) = concat (map remaining_text cs)"
| "text_fragments (NavigableString s) = []"
| "text_fragments (TemplateString s) = []"
| "text_fragments (Comment s) = []"

text \<open>
  The content as the specification words it: every remaining fragment trimmed, all of
  them joined by the separator.
\<close>

definition joined_fragments :: "node \<Rightarrow> string" where
  "joined_fragments soup = join '' \<newline>'' (map strip (text_fragments soup))"

text \<open>
  A document with what is inside its elements of the removed kinds emptied: two
  documents with the same image differ only inside such elements.
\<close>

fun blank :: "node \<Rightarrow> node" where
  "blank (Tag n cs) = (if n \<in> set irrelevant then Tag n [] else Tag n (map blank cs))"
| "blank (NavigableString s) = NavigableString s"
| "blank (TemplateString s) = TemplateString s"
| "blank (Comment s) = Comment s"

fun blank_soup :: "node \<Rightarrow> node" where
  "blank_soup (Tag n cs) = Tag n (map blank cs)"
| "blank_soup (NavigableString s) = NavigableString s"
| "blank_soup (TemplateString s) = TemplateString s"
| "blank_soup (Comment s) = Comment s"

text \<open>A string with white space at one of its ends.\<close>

definition has_outer_whitespace :: "string \<Rightarrow> bool" where
  "has_outer_whitespace s = (s \<noteq> [] \<and> (isspace (hd s) \<or> isspace (last s)))"

section \<open>Documents and worlds used as examples\<close>

text \<open>
  \<^verbatim>\<open><html><head><title> T </title></head><body><p>a</p>\<close> newline \<^verbatim>\<open><p>b</p></body></html>\<close>
\<close>

definition doc_spaced :: node where
  "doc_spaced =
     Tag ''[document]''
       [Tag ''html''
          [Tag ''head'' [Tag ''title'' [NavigableString '' T '']],
           Tag ''body''
             [Tag ''p'' [NavigableString ''a''], NavigableString ''\<newline>'',
              Tag ''p'' [NavigableString ''b'']]]]"

text \<open>\<^verbatim>\<open><html><head><title><style>x</style></title></head></html>\<close>\<close>

definition doc_style_title :: node where
  "doc_style_title =
     Tag ''[document]''
       [Tag ''html'' [Tag ''head'' [Tag ''title'' [Tag ''style'' [NavigableString ''x'']]]]]"

text \<open>\<^verbatim>\<open><html><head><title></title></head><body>Hi</body></html>\<close>\<close>

definition doc_empty_title :: node where
  "doc_empty_title =
     Tag ''[document]''
       [Tag ''html'' [Tag ''head'' [Tag ''title'' []], Tag ''body'' [NavigableString ''Hi'']]]"

text \<open>
  \<^verbatim>\<open><html><title>T</title><body><script>...</script><p>Hello  World</p></body></html>\<close>
  with the given text in the script.
\<close>

definition doc_script :: "string \<Rightarrow> node" where
  "doc_script x =
     Tag ''[document]''
       [Tag ''html''
          [Tag ''title'' [NavigableString ''T''],
           Tag ''body'' [Tag ''script'' [NavigableString x], Tag ''p'' [NavigableString ''Hello  World'']]]]"

text \<open>
  \<^verbatim>\<open><template><title>X</title></template><p>y</p>\<close>, parsed by a version of the
  library that keeps the text inside a template element in a class of its own.
\<close>

definition doc_template :: node where
  "doc_template =
     Tag ''[document]''
       [Tag ''template'' [Tag ''title'' [TemplateString ''X'']],
        Tag ''p'' [NavigableString ''y'']]"

text \<open>\<^verbatim>\<open><html><head><title>Demo</title></head><body>Hello</body></html>\<close>\<close>

definition doc_demo :: node where
  "doc_demo =
     Tag ''[document]''
       [Tag ''html''
          [Tag ''head'' [Tag ''title'' [NavigableString ''Demo'']],
           Tag ''body'' [NavigableString ''Hello'']]]"

text \<open>
  A world with one environment variable, in which every request, every parse and every
  call of the chat endpoint has the given outcome.
\<close>

definition demo_world ::
  "string option \<Rightarrow> error + string \<Rightarrow> error + node \<Rightarrow> error + ChatCompletion \<Rightarrow> world" where
  "demo_world key page parsed answer =
     \<lparr>getenv = (\<lambda>v. if v = ''OPENAI_API_KEY'' then key else None),
      requests_get = (\<lambda>u. page),
      html_parser = (\<lambda>h. parsed),
      chat_completions_create = (\<lambda>m ms. answer)\<rparr>"

definition one_choice :: "string \<Rightarrow> ChatCompletion" where
  "one_choice s = ChatCompletion (Some [Choice (ChatCompletionMessage (Some s))])"

section \<open>Lemmas on the tree functions\<close>

lemma is_named_decompose: "is_named names (decompose_all names c) = is_named names c"
  by (cases c) auto

lemma find_all_decompose: "find_all names (decompose_all names t) = []"
  unfolding find_all_def
  by (induction t) (auto simp: filter_concat is_named_decompose comp_def filter_empty_conv)

lemma is_named_blank: "is_named irrelevant (blank c) = is_named irrelevant c"
  by (cases c) auto

lemma decompose_blank_child:
  "\<not> is_named irrelevant c \<Longrightarrow> decompose_all irrelevant (blank c) = decompose_all irrelevant c"
proof (induction c)
  case (Tag n cs)
  then have n: "n \<notin> set irrelevant" by simp
  have "map (decompose_all irrelevant) (filter (\<lambda>c. \<not> is_named irrelevant c) (map blank cs))
      = map (decompose_all irrelevant) (filter (\<lambda>c. \<not> is_named irrelevant c) cs)"
    using Tag.IH by (induction cs) (auto simp: is_named_blank)
  with n show ?case by simp
qed simp_all

lemma decompose_blank_soup:
  "decompose_all irrelevant (blank_soup t) = decompose_all irrelevant t"
proof (cases t)
  case (Tag n cs)
  have "map (decompose_all irrelevant) (filter (\<lambda>c. \<not> is_named irrelevant c) (map blank cs))
      = map (decompose_all irrelevant) (filter (\<lambda>c. \<not> is_named irrelevant c) cs)"
    by (induction cs) (auto simp: is_named_blank decompose_blank_child)
  with Tag show ?thesis by simp
qed simp_all

lemma text_nodes_append: "text_nodes (xs @ ys) = text_nodes xs @ text_nodes ys"
  by (induction xs rule: text_nodes.induct) auto

lemma text_nodes_concat: "text_nodes (concat xss) = concat (map text_nodes xss)"
  by (induction xss) (auto simp: text_nodes_append)

lemma concat_map_filter:
  assumes "\<And>c. c \<in> set cs \<Longrightarrow> \<not> P c \<Longrightarrow> f c = g c"
    and "\<And>c. c \<in> set cs \<Longrightarrow> P c \<Longrightarrow> g c = []"
  shows "concat (map f (filter (\<lambda>c. \<not> P c) cs)) = concat (map g cs)"
  using assms by (induction cs) auto

lemma plain_text_named: "is_named irrelevant c \<Longrightarrow> plain_text c = []"
  by (cases c) auto

lemma text_nodes_child:
  "\<not> is_named irrelevant c \<Longrightarrow>
     text_nodes (decompose_all irrelevant c # descendants (decompose_all irrelevant c)) = plain_text c"
proof (induction c)
  case (Tag n cs)
  then have n: "n \<notin> set irrelevant" by simp
  have "concat (map (\<lambda>c. text_nodes (decompose_all irrelevant c # descendants (decompose_all irrelevant c)))
           (filter (\<lambda>c. \<not> is_named irrelevant c) cs))
      = concat (map plain_text cs)"
    by (rule concat_map_filter) (auto simp: Tag.IH plain_text_named simp del: text_nodes.simps)
  with n show ?case by (simp add: text_nodes_concat comp_def del: text_nodes.simps(2))
qed simp_all

lemma all_strings_decompose:
  "all_strings (decompose_all irrelevant soup) = fragments soup"
proof (cases soup)
  case (Tag n cs)
  have "concat (map (\<lambda>c. text_nodes (decompose_all irrelevant c # descendants (decompose_all irrelevant c)))
           (filter (\<lambda>c. \<not> is_named irrelevant c) cs))
      = concat (map plain_text cs)"
    by (rule concat_map_filter) (auto simp: text_nodes_child plain_text_named simp del: text_nodes.simps)
  with Tag show ?thesis by (simp add: all_strings_def text_nodes_concat comp_def del: text_nodes.simps(2))
qed (simp_all add: all_strings_def)

lemma find_in_descendants: "find name T = Some t \<Longrightarrow> t \<in> set (descendants T)"
proof -
  assume "find name T = Some t"
  then obtain ts where "filter (is_named [name]) (descendants T) = t # ts"
    by (auto simp: find_def find_all_def split: list.splits)
  then have "t \<in> set (filter (is_named [name]) (descendants T))" by simp
  then show ?thesis by simp
qed

lemma string_of_in_descendants: "string_of t = Some x \<Longrightarrow> x \<in> set (descendants t)"
  by (induction t rule: string_of.induct) auto

lemma descendants_trans:
  "t \<in> set (descendants T) \<Longrightarrow> x \<in> set (descendants t) \<Longrightarrow> x \<in> set (descendants T)"
  by (induction T) auto

lemma text_nodes_member: "NavigableString s \<in> set ds \<Longrightarrow> s \<in> set (text_nodes ds)"
  by (induction ds rule: text_nodes.induct) auto

lemma title_string_in_all_strings:
  assumes "find name T = Some t" and "string_of t = Some (NavigableString s)"
  shows "s \<in> set (all_strings T)"
proof -
  have "t \<in> set (descendants T)" using assms(1) by (rule find_in_descendants)
  moreover have "NavigableString s \<in> set (descendants t)"
    using assms(2) by (rule string_of_in_descendants)
  ultimately have "NavigableString s \<in> set (descendants T)" by (rule descendants_trans)
  then show ?thesis unfolding all_strings_def by (rule text_nodes_member)
qed

section \<open>Lemmas on strings\<close>

lemma strip_neq_iff: "strip s \<noteq> s \<longleftrightarrow> has_outer_whitespace s"
proof (cases "s = []")
  case True
  then show ?thesis by (simp add: strip_def has_outer_whitespace_def)
next
  case False
  show ?thesis
  proof (cases "isspace (hd s)")
    case True
    with False have "length (dropWhile isspace s) < length s"
      by (cases s) (auto simp: le_imp_less_Suc length_dropWhile_le)
    moreover have "length (strip s) \<le> length (dropWhile isspace s)"
      by (simp add: strip_def length_dropWhile_le) (metis length_dropWhile_le length_rev)
    ultimately have "strip s \<noteq> s" by auto
    with True False show ?thesis by (simp add: has_outer_whitespace_def)
  next
    case h: False
    then have d: "dropWhile isspace s = s" by (simp add: dropWhile_eq_self_iff)
    have "strip s = s \<longleftrightarrow> dropWhile isspace (rev s) = rev s"
      unfolding strip_def d by (metis rev_rev_ident)
    also have "\<dots> \<longleftrightarrow> \<not> isspace (last s)"
      using False by (simp add: dropWhile_eq_self_iff hd_rev)
    finally show ?thesis using h False by (simp add: has_outer_whitespace_def)
  qed
qed

lemma sublist_join: "x \<in> set ys \<Longrightarrow> sublist x (join sep ys)"
proof (induction sep ys rule: join.induct)
  case (3 sep a b bs)
  show ?case
  proof (cases "x = a")
    case True
    then show ?thesis by simp
  next
    case False
    with 3 have "sublist x (join sep (b # bs))" by auto
    then show ?thesis
      by (metis join.simps(3) append.assoc sublist_append_leftI sublist_order.order_trans)
  qed
qed simp_all

lemma sublist_strip_get_text:
  assumes "s \<in> set (all_strings T)"
  shows "sublist (strip s) (get_text sep T)"
proof (cases "strip s = []")
  case True
  then show ?thesis by simp
next
  case False
  with assms have "strip s \<in> set (stripped_strings T)"
    by (auto simp: stripped_strings_def)
  then show ?thesis unfolding get_text_def by (rule sublist_join)
qed

text \<open>The facts that evaluate the extraction on a concrete document.\<close>

lemmas extraction_defs =
  Website_of_soup_def soup_title_def soup_content_def find_def find_all_def get_text_def
  stripped_strings_def all_strings_def irrelevant_def strip_def isspace_def whitespace_def

section \<open>The title\<close>




section \<open>The removed elements\<close>

lemma soup_content_blank:
  assumes "blank_soup soup' = blank_soup soup"
  shows "soup_content soup' = soup_content soup"
proof -
  have "decompose_all irrelevant soup' = decompose_all irrelevant (blank_soup soup')"
    by (simp only: decompose_blank_soup)
  also have "\<dots> = decompose_all irrelevant (blank_soup soup)"
    by (simp only: assms)
  also have "\<dots> = decompose_all irrelevant soup"
    by (simp only: decompose_blank_soup)
  finally show ?thesis by (simp only: soup_content_def)
qed

text \<open>
  C2: the tree the text is taken from has no script, style, img or input element left,
  and the content does not depend on what is inside such elements: two documents that
  differ only there have the same content.
\<close>

theorem removed_elements_leave_no_text:
  "find_all irrelevant (decompose_all irrelevant soup) = [] \<and>
   content (Website_of_soup u soup) = get_text '' \<newline>'' (decompose_all irrelevant soup) \<and>
   (\<forall>soup' u'. blank_soup soup' = blank_soup soup \<longrightarrow>
      content (Website_of_soup u' soup') = content (Website_of_soup u soup))"
proof (intro conjI allI impI)
  show "find_all irrelevant (decompose_all irrelevant soup) = []"
    by (rule find_all_decompose)
  show "content (Website_of_soup u soup) = get_text '' \<newline>'' (decompose_all irrelevant soup)"
    by (simp add: Website_of_soup_def soup_content_def)
  fix soup' u'
  assume "blank_soup soup' = blank_soup soup"
  then have "soup_content soup' = soup_content soup" by (rule soup_content_blank)
  then show "content (Website_of_soup u' soup') = content (Website_of_soup u soup)"
    by (simp add: Website_of_soup_def)
qed

theorem removed_elements_leave_no_text_witness:
  "blank_soup (doc_script ''y'') = blank_soup (doc_script ''x'') \<and>
   content (Website_of_soup ''v'' (doc_script ''y'')) = content (Website_of_soup ''u'' (doc_script ''x'')) \<and>
   content (Website_of_soup ''u'' (doc_script ''x'')) = ''T \<newline>Hello  World''"
proof -
  have b: "blank_soup (doc_script ''y'') = blank_soup (doc_script ''x'')"
    by (simp add: doc_script_def irrelevant_def)
  have c: "content (Website_of_soup ''u'' (doc_script ''x'')) = ''T \<newline>Hello  World''"
    by (simp add: doc_script_def extraction_defs)
  from removed_elements_leave_no_text [of "doc_script ''x''" "''u''"] b
  have "content (Website_of_soup ''v'' (doc_script ''y'')) = content (Website_of_soup ''u'' (doc_script ''x''))"
    by blast
  with b c show ?thesis by blast
qed

section \<open>The messages\<close>

text \<open>
  C3: \<open>message_for\<close> gives two messages, the system message with the fixed prompt and
  then the user message; the user prompt is the title line, the instruction and the
  whole content of the page, which ends it.
\<close>

theorem message_for_two_messages:
  "message_for page =
     [[(''role'', ''system''), (''content'', system_prompt)],
      [(''role'', ''user''), (''content'', user_prompt_for page)]] \<and>
   length (message_for page) = 2 \<and>
   map (\<lambda>m. map_of m ''role'') (message_for page) = [Some ''system'', Some ''user''] \<and>
   map_of (message_for page ! 0) ''content'' = Some system_prompt \<and>
   map_of (message_for page ! 1) ''content'' = Some (user_prompt_for page) \<and>
   user_prompt_for page =
     ''You are looking at a website titled '' @ format_title (title page) @ user_instruction @ content page \<and>
   sublist (format_title (title page)) (user_prompt_for page) \<and>
   (\<forall>t. title page = Some t \<longrightarrow> sublist t (user_prompt_for page)) \<and>
   suffix (content page) (user_prompt_for page)"
proof -
  have u: "user_prompt_for page =
     ''You are looking at a website titled '' @ format_title (title page) @ user_instruction @ content page"
    by (simp add: user_prompt_for_def)
  have s: "sublist (format_title (title page)) (user_prompt_for page)"
    unfolding u by (rule sublist_appendI)
  have t: "sublist t (user_prompt_for page)" if "title page = Some t" for t
    using s that by simp
  have x: "suffix (content page) (user_prompt_for page)"
    unfolding u by (simp add: suffix_def)
  show ?thesis using u s t x by (simp add: message_for_def)
qed

theorem message_for_two_messages_witness:
  "title (Website_of_soup ''u'' doc_demo) = Some ''Demo'' \<and>
   sublist ''Demo'' (user_prompt_for (Website_of_soup ''u'' doc_demo)) \<and>
   suffix ''Demo \<newline>Hello'' (user_prompt_for (Website_of_soup ''u'' doc_demo)) \<and>
   length (message_for (Website_of_soup ''u'' doc_demo)) = 2"
proof -
  have t: "title (Website_of_soup ''u'' doc_demo) = Some ''Demo''"
    by (simp add: doc_demo_def extraction_defs)
  have c: "content (Website_of_soup ''u'' doc_demo) = ''Demo \<newline>Hello''"
    by (simp add: doc_demo_def extraction_defs)
  from message_for_two_messages [of "Website_of_soup ''u'' doc_demo"] t c
  show ?thesis by metis
qed

section \<open>The key check\<close>

text \<open>
  C4: the key check raises its \<open>ValueError\<close> exactly when the key is absent or empty,
  or does not start with \<open>sk-\<close>, or has white space at one of its ends, and it raises
  nothing else; when it raises, the run of the notebook ends with that error and with
  an empty log: no request was sent. The key \<open>abc-123\<close> is the witness.
\<close>

theorem key_check_raises_iff:
  "((\<exists>m. check_api_key k = Inl (ValueError m)) \<longleftrightarrow>
      (case k of None \<Rightarrow> True
       | Some s \<Rightarrow> s = [] \<or> \<not> startswith s ''sk-'' \<or> has_outer_whitespace s)) \<and>
   (isl (check_api_key k) \<longleftrightarrow> (\<exists>m. check_api_key k = Inl (ValueError m))) \<and>
   (\<forall>w::world. getenv w ''OPENAI_API_KEY'' = k \<and> isl (check_api_key k) \<longrightarrow>
      (\<exists>m. run_all w = (Inl (ValueError m), [])))"
proof (intro conjI allI impI)
  show "(\<exists>m. check_api_key k = Inl (ValueError m)) \<longleftrightarrow>
      (case k of None \<Rightarrow> True
       | Some s \<Rightarrow> s = [] \<or> \<not> startswith s ''sk-'' \<or> has_outer_whitespace s)"
    by (cases k) (auto simp: check_api_key_def strip_neq_iff simp del: append.simps)
  show v: "isl (check_api_key k) \<longleftrightarrow> (\<exists>m. check_api_key k = Inl (ValueError m))"
    by (cases k) (auto simp: check_api_key_def simp del: append.simps)
  fix w :: world
  assume a: "getenv w ''OPENAI_API_KEY'' = k \<and> isl (check_api_key k)"
  then obtain m where "check_api_key k = Inl (ValueError m)" using v by blast
  with a show "\<exists>m. run_all w = (Inl (ValueError m), [])"
    by (simp add: run_all_def)
qed

theorem key_check_raises_iff_witness:
  "(\<exists>m. check_api_key (Some ''abc-123'') = Inl (ValueError m)) \<and>
   (\<exists>m. run_all (demo_world (Some ''abc-123'') (Inr ''<html></html>'') (Inr doc_demo)
                   (Inr (one_choice ''A short summary.''))) = (Inl (ValueError m), []))"
proof -
  let ?w = "demo_world (Some ''abc-123'') (Inr ''<html></html>'') (Inr doc_demo)
              (Inr (one_choice ''A short summary.''))"
  have s: "\<not> startswith ''abc-123'' ''sk-''" by (simp add: startswith_def)
  have g: "getenv ?w ''OPENAI_API_KEY'' = Some ''abc-123''" by (simp add: demo_world_def)
  have e: "\<exists>m. check_api_key (Some ''abc-123'') = Inl (ValueError m)"
    using key_check_raises_iff [of "Some ''abc-123''"] s by simp
  have "\<exists>m. run_all ?w = (Inl (ValueError m), [])"
    using key_check_raises_iff [of "Some ''abc-123''"] e g by blast
  with e show ?thesis by blast
qed

section \<open>The pipeline\<close>

text \<open>
  C5: \<open>summarize_website\<close> runs its stages in order and stops at the first that fails.
  When the request fails, it returns that error and the log has gained the request
  alone: neither \<open>message_for\<close> nor the chat endpoint was called. The same holds when
  the parser fails. When the chat endpoint fails, its error is returned, and when all
  succeed the result is the summary read from the response.
\<close>

theorem summarize_website_stops_at_first_failure:
  "(\<forall>e. requests_get w u = Inl e \<longrightarrow>
      summarize_website w u log = (Inl e, log @ [Called_requests_get u])) \<and>
   (\<forall>h e. requests_get w u = Inr h \<and> html_parser w h = Inl e \<longrightarrow>
      summarize_website w u log = (Inl e, log @ [Called_requests_get u])) \<and>
   (\<forall>h soup e. requests_get w u = Inr h \<and> html_parser w h = Inr soup \<and>
        chat_completions_create w ''gpt-4o-mini'' (message_for (Website_of_soup u soup)) = Inl e \<longrightarrow>
      summarize_website w u log =
        (Inl e, log @ [Called_requests_get u, Called_message_for,
                       Called_create ''gpt-4o-mini'' (message_for (Website_of_soup u soup))])) \<and>
   (\<forall>h soup r. requests_get w u = Inr h \<and> html_parser w h = Inr soup \<and>
        chat_completions_create w ''gpt-4o-mini'' (message_for (Website_of_soup u soup)) = Inr r \<longrightarrow>
      summarize_website w u log =
        (summary_of r, log @ [Called_requests_get u, Called_message_for,
                              Called_create ''gpt-4o-mini'' (message_for (Website_of_soup u soup))]))"
  by (simp add: summarize_website_def Website_init_def Let_def)

theorem summarize_website_stops_at_first_failure_witness:
  "summarize_website
     (demo_world (Some ''sk-1'') (Inl (RequestException ''unreachable'')) (Inr doc_demo)
        (Inr (one_choice ''A short summary.'')))
     ''http://unreachable.invalid/'' []
   = (Inl (RequestException ''unreachable''), [Called_requests_get ''http://unreachable.invalid/'']) \<and>
   summarize_website
     (demo_world (Some ''sk-1'') (Inr ''<html></html>'') (Inl ParserRejectedMarkup)
        (Inr (one_choice ''A short summary.'')))
     ''http://demo/'' []
   = (Inl ParserRejectedMarkup, [Called_requests_get ''http://demo/'']) \<and>
   fst (summarize_website
     (demo_world (Some ''sk-1'') (Inr ''<html></html>'') (Inr doc_demo) (Inl (APIError ''rate limit'')))
     ''http://demo/'' [])
   = Inl (APIError ''rate limit'') \<and>
   fst (summarize_website
     (demo_world (Some ''sk-1'') (Inr ''<html></html>'') (Inr doc_demo)
        (Inr (one_choice ''A short summary.'')))
     ''http://demo/'' [])
   = Inr ''A short summary.''"
proof -
  let ?ok = "Inr (one_choice ''A short summary.'')"
  let ?w1 = "demo_world (Some ''sk-1'') (Inl (RequestException ''unreachable'')) (Inr doc_demo) ?ok"
  let ?w2 = "demo_world (Some ''sk-1'') (Inr ''<html></html>'') (Inl ParserRejectedMarkup) ?ok"
  let ?w3 = "demo_world (Some ''sk-1'') (Inr ''<html></html>'') (Inr doc_demo) (Inl (APIError ''rate limit''))"
  let ?w4 = "demo_world (Some ''sk-1'') (Inr ''<html></html>'') (Inr doc_demo) ?ok"
  have a: "requests_get ?w1 ''http://unreachable.invalid/'' = Inl (RequestException ''unreachable'')"
    by (simp add: demo_world_def)
  have b: "requests_get ?w2 ''http://demo/'' = Inr ''<html></html>'' \<and>
           html_parser ?w2 ''<html></html>'' = Inl ParserRejectedMarkup"
    by (simp add: demo_world_def)
  have c: "requests_get ?w3 ''http://demo/'' = Inr ''<html></html>'' \<and>
           html_parser ?w3 ''<html></html>'' = Inr doc_demo \<and>
           chat_completions_create ?w3 ''gpt-4o-mini'' (message_for (Website_of_soup ''http://demo/'' doc_demo))
             = Inl (APIError ''rate limit'')"
    by (simp add: demo_world_def)
  have d: "requests_get ?w4 ''http://demo/'' = Inr ''<html></html>'' \<and>
           html_parser ?w4 ''<html></html>'' = Inr doc_demo \<and>
           chat_completions_create ?w4 ''gpt-4o-mini'' (message_for (Website_of_soup ''http://demo/'' doc_demo))
             = ?ok"
    by (simp add: demo_world_def)
  have s: "summary_of (one_choice ''A short summary.'') = Inr ''A short summary.''"
    by (simp add: summary_of_def one_choice_def strip_def isspace_def whitespace_def)
  have 1: "summarize_website ?w1 ''http://unreachable.invalid/'' []
      = (Inl (RequestException ''unreachable''), [Called_requests_get ''http://unreachable.invalid/''])"
    using summarize_website_stops_at_first_failure [of ?w1 "''http://unreachable.invalid/''" "[]"] a
    by simp
  have 2: "summarize_website ?w2 ''http://demo/'' [] = (Inl ParserRejectedMarkup, [Called_requests_get ''http://demo/''])"
    using summarize_website_stops_at_first_failure [of ?w2 "''http://demo/''" "[]"] b
    by simp
  have 3: "fst (summarize_website ?w3 ''http://demo/'' []) = Inl (APIError ''rate limit'')"
    using summarize_website_stops_at_first_failure [of ?w3 "''http://demo/''" "[]"] c
    by simp
  have 4: "fst (summarize_website ?w4 ''http://demo/'' []) = Inr ''A short summary.''"
    using summarize_website_stops_at_first_failure [of ?w4 "''http://demo/''" "[]"] d s
    by simp
  from 1 2 3 4 show ?thesis by blast
qed

text \<open>
  C6, as the code has it: when the response has a first choice whose message has text,
  the summary is that text stripped; with an empty list of choices the index raises
  \<open>IndexError\<close>, and with no list \<open>TypeError\<close>.
\<close>

theorem summary_of_first_choice:
  "(\<forall>c cs s. choices r = Some (c # cs) \<and> message_content (message c) = Some s \<longrightarrow>
      summary_of r = Inr (strip s)) \<and>
   (choices r = Some [] \<longrightarrow> summary_of r = Inl IndexError) \<and>
   (choices r = None \<longrightarrow> summary_of r = Inl TypeError)"
  by (simp add: summary_of_def)

theorem summary_of_first_choice_witness:
  "summary_of (ChatCompletion (Some
      [Choice (ChatCompletionMessage (Some '' A short summary.\<newline>'')),
       Choice (ChatCompletionMessage (Some ''second''))])) = Inr ''A short summary.'' \<and>
   summary_of (ChatCompletion (Some [])) = Inl IndexError \<and>
   summary_of (ChatCompletion None) = Inl TypeError"
proof -
  let ?r = "ChatCompletion (Some
      [Choice (ChatCompletionMessage (Some '' A short summary.\<newline>'')),
       Choice (ChatCompletionMessage (Some ''second''))])"
  have s: "strip '' A short summary.\<newline>'' = ''A short summary.''"
    by (simp add: strip_def isspace_def whitespace_def)
  have 1: "summary_of ?r = Inr ''A short summary.''"
    using summary_of_first_choice [of ?r] s by simp
  have 2: "summary_of (ChatCompletion (Some [])) = Inl IndexError"
    using summary_of_first_choice [of "ChatCompletion (Some [])"] by simp
  have 3: "summary_of (ChatCompletion None) = Inl TypeError"
    using summary_of_first_choice [of "ChatCompletion None"] by simp
  from 1 2 3 show ?thesis by blast
qed

text \<open>
  C6 as stated fails: for a response with no choices the error that leaves
  \<open>summarize_website\<close> is Python's \<open>IndexError\<close>, not an error of the API client.
\<close>

theorem empty_choices_counterexample:
  "summarize_website
     (demo_world (Some ''sk-1'') (Inr ''<html></html>'') (Inr doc_demo) (Inr (ChatCompletion (Some []))))
     ''http://demo/'' []
   = (Inl IndexError,
      [Called_requests_get ''http://demo/'', Called_message_for,
       Called_create ''gpt-4o-mini'' (message_for (Website_of_soup ''http://demo/'' doc_demo))]) \<and>
   \<not> is_api_error IndexError"
  by (simp add: summarize_website_def Website_init_def demo_world_def summary_of_def)

section \<open>Determinism\<close>

text \<open>
  C9: title and content depend on the HTML alone. Two constructions of a \<open>Website\<close>,
  in any two worlds with the same parser, for any two addresses and after any two
  histories, give the same title and the same content when the two requests return
  the same HTML.
\<close>

theorem Website_depends_on_html_only:
  assumes "html_parser w1 = html_parser w2"
    and "requests_get w1 u1 = Inr h" and "requests_get w2 u2 = Inr h"
  shows "map_sum id (\<lambda>p. (title p, content p)) (fst (Website_init w1 u1 log1)) =
         map_sum id (\<lambda>p. (title p, content p)) (fst (Website_init w2 u2 log2))"
  using assms by (simp add: Website_init_def Website_of_soup_def Let_def split: sum.splits)

theorem Website_depends_on_html_only_witness:
  "map_sum id (\<lambda>p. (title p, content p))
     (fst (Website_init (demo_world None (Inr ''<html></html>'') (Inr doc_demo) (Inl (APIError ''down'')))
        ''http://a/'' [])) =
   map_sum id (\<lambda>p. (title p, content p))
     (fst (Website_init (demo_world (Some ''sk-1'') (Inr ''<html></html>'') (Inr doc_demo)
             (Inr (one_choice ''A short summary.'')))
        ''http://b/'' [Called_message_for])) \<and>
   map_sum id (\<lambda>p. (title p, content p))
     (fst (Website_init (demo_world None (Inr ''<html></html>'') (Inr doc_demo) (Inl (APIError ''down'')))
        ''http://a/'' [])) = Inr (Some ''Demo'', ''Demo \<newline>Hello'')"
proof -
  let ?w1 = "demo_world None (Inr ''<html></html>'') (Inr doc_demo) (Inl (APIError ''down''))"
  let ?w2 = "demo_world (Some ''sk-1'') (Inr ''<html></html>'') (Inr doc_demo)
             (Inr (one_choice ''A short summary.''))"
  have p: "html_parser ?w1 = html_parser ?w2" by (simp add: demo_world_def)
  have a: "requests_get ?w1 ''http://a/'' = Inr ''<html></html>''" by (simp add: demo_world_def)
  have b: "requests_get ?w2 ''http://b/'' = Inr ''<html></html>''" by (simp add: demo_world_def)
  have v: "map_sum id (\<lambda>p. (title p, content p)) (fst (Website_init ?w1 ''http://a/'' []))
      = Inr (Some ''Demo'', ''Demo \<newline>Hello'')"
    by (simp add: Website_init_def demo_world_def doc_demo_def extraction_defs)
  from Website_depends_on_html_only [OF p a b, of "[]" "[Called_message_for]"] v
  show ?thesis by simp
qed

section \<open>The content\<close>

text \<open>
  C7, as the code has it: the content is made of the plain text nodes (the strings of
  class \<open>NavigableString\<close>) that remain outside the removed elements, in document
  order, each stripped, the ones that are empty after stripping left out, joined by a
  space and a newline. Strings of another class are no part of it: neither comments
  nor the text the library keeps in a class of its own, as inside a template element.
  Nothing else is changed, dropped or cut.
\<close>

theorem content_is_joined_nonempty_fragments:
  "content (Website_of_soup u soup) =
     join '' \<newline>'' (filter (\<lambda>s. s \<noteq> []) (map strip (fragments soup)))"
  by (simp add: Website_of_soup_def soup_content_def get_text_def stripped_strings_def
      all_strings_decompose)

theorem content_is_joined_nonempty_fragments_witness:
  "fragments doc_spaced = ['' T '', ''a'', ''\<newline>'', ''b''] \<and>
   content (Website_of_soup ''u'' doc_spaced) = ''T \<newline>a \<newline>b'' \<and>
   fragments doc_template = [''y''] \<and>
   content (Website_of_soup ''u'' doc_template) = ''y''"
proof -
  have f: "fragments doc_spaced = ['' T '', ''a'', ''\<newline>'', ''b'']"
    by (simp add: doc_spaced_def irrelevant_def)
  have g: "fragments doc_template = [''y'']"
    by (simp add: doc_template_def irrelevant_def)
  have "content (Website_of_soup ''u'' doc_spaced) = ''T \<newline>a \<newline>b''"
    unfolding content_is_joined_nonempty_fragments [of "''u''" doc_spaced] f
    by (simp add: strip_def isspace_def whitespace_def)
  moreover have "content (Website_of_soup ''u'' doc_template) = ''y''"
    unfolding content_is_joined_nonempty_fragments [of "''u''" doc_template] g
    by (simp add: strip_def isspace_def whitespace_def)
  ultimately show ?thesis using f g by blast
qed

text \<open>
  C7 as stated fails twice. \<open>doc_spaced\<close> has a text node holding one newline between
  its two paragraphs: joining every trimmed fragment gives two separators in a row, the
  content has one. \<open>doc_template\<close> has the text \<open>X\<close> inside a template element, which is
  not of a removed kind: it is a remaining text fragment, and the content is without
  it.
\<close>

theorem blank_fragments_dropped_counterexample:
  "content (Website_of_soup ''u'' doc_spaced) = ''T \<newline>a \<newline>b'' \<and>
   joined_fragments doc_spaced = ''T \<newline>a \<newline> \<newline>b'' \<and>
   content (Website_of_soup ''u'' doc_spaced) \<noteq> joined_fragments doc_spaced \<and>
   content (Website_of_soup ''u'' doc_template) = ''y'' \<and>
   joined_fragments doc_template = ''X \<newline>y'' \<and>
   content (Website_of_soup ''u'' doc_template) \<noteq> joined_fragments doc_template"
  by (simp add: doc_spaced_def doc_template_def extraction_defs joined_fragments_def)

text \<open>
  C8 at a title element without text: \<open>.string\<close> is \<open>None\<close>, so the title is \<open>None\<close>
  and not the sentinel, and the user prompt reads \<open>titled None\<close>.
\<close>

theorem empty_title_element_gives_None:
  "find ''title'' doc_empty_title = Some (Tag ''title'' []) \<and>
   title (Website_of_soup ''u'' doc_empty_title) = None \<and>
   user_prompt_for (Website_of_soup ''u'' doc_empty_title) =
     ''You are looking at a website titled None'' @ user_instruction @ ''Hi''"
  by (simp add: doc_empty_title_def extraction_defs user_prompt_for_def)

text \<open>
  C10, as the code has it: when the title of the document is a plain text node (a
  string of class \<open>NavigableString\<close>, not a comment and not text the library keeps in
  a class of its own), and the same string is still the title, as a plain text node,
  once the script, style, img and input elements are removed, the content contains
  that string stripped.
\<close>

theorem content_contains_stripped_title:
  assumes "find ''title'' soup = Some t"
    and "string_of t = Some (NavigableString s)"
    and "find ''title'' (decompose_all irrelevant soup) = Some t'"
    and "string_of t' = Some (NavigableString s)"
  shows "title (Website_of_soup u soup) = Some s \<and>
         sublist (strip s) (content (Website_of_soup u soup))"
proof -
  have "title (Website_of_soup u soup) = Some s"
    using assms(1,2) by (simp add: Website_of_soup_def soup_title_def)
  moreover have "s \<in> set (all_strings (decompose_all irrelevant soup))"
    using assms(3,4) by (rule title_string_in_all_strings)
  then have "sublist (strip s) (get_text '' \<newline>'' (decompose_all irrelevant soup))"
    by (rule sublist_strip_get_text)
  then have "sublist (strip s) (content (Website_of_soup u soup))"
    by (simp add: Website_of_soup_def soup_content_def)
  ultimately show ?thesis by blast
qed

theorem content_contains_stripped_title_witness:
  "title (Website_of_soup ''u'' doc_spaced) = Some '' T '' \<and>
   sublist ''T'' (content (Website_of_soup ''u'' doc_spaced))"
proof -
  have a: "find ''title'' doc_spaced = Some (Tag ''title'' [NavigableString '' T ''])"
    by (simp add: doc_spaced_def find_def find_all_def)
  have b: "string_of (Tag ''title'' [NavigableString '' T '']) = Some (NavigableString '' T '')"
    by simp
  have c: "find ''title'' (decompose_all irrelevant doc_spaced) = Some (Tag ''title'' [NavigableString '' T ''])"
    by (simp add: doc_spaced_def find_def find_all_def irrelevant_def)
  have s: "strip '' T '' = ''T''"
    by (simp add: strip_def isspace_def whitespace_def)
  from content_contains_stripped_title [OF a b c b, of "''u''"] s show ?thesis by simp
qed

text \<open>
  C10 as stated fails three times. The title of \<open>doc_spaced\<close> has a space on each
  side and the content holds it without them. The title of \<open>doc_style_title\<close> is the
  text of a style element inside the title element, which is removed before the text
  is taken. The title of \<open>doc_template\<close> is text inside a template element: it has no
  white space around it and is still the title after the removal, but it is not a
  plain text node, and \<open>get_text\<close> leaves it out.
\<close>

theorem title_not_in_content_counterexample:
  "title (Website_of_soup ''u'' doc_spaced) = Some '' T '' \<and>
   content (Website_of_soup ''u'' doc_spaced) = ''T \<newline>a \<newline>b'' \<and>
   \<not> sublist '' T '' (content (Website_of_soup ''u'' doc_spaced)) \<and>
   title (Website_of_soup ''u'' doc_style_title) = Some ''x'' \<and>
   content (Website_of_soup ''u'' doc_style_title) = [] \<and>
   \<not> sublist ''x'' (content (Website_of_soup ''u'' doc_style_title)) \<and>
   title (Website_of_soup ''u'' doc_template) = Some ''X'' \<and>
   soup_title (decompose_all irrelevant doc_template) = Some ''X'' \<and>
   strip ''X'' = ''X'' \<and>
   content (Website_of_soup ''u'' doc_template) = ''y'' \<and>
   \<not> sublist ''X'' (content (Website_of_soup ''u'' doc_template))"
proof -
  have a: "title (Website_of_soup ''u'' doc_spaced) = Some '' T ''"
    by (simp add: doc_spaced_def extraction_defs)
  have b: "content (Website_of_soup ''u'' doc_spaced) = ''T \<newline>a \<newline>b''"
    by (simp add: doc_spaced_def extraction_defs)
  have c: "\<not> sublist '' T '' ''T \<newline>a \<newline>b''"
    by code_simp
  have d: "title (Website_of_soup ''u'' doc_style_title) = Some ''x''"
    by (simp add: doc_style_title_def extraction_defs)
  have e: "content (Website_of_soup ''u'' doc_style_title) = []"
    by (simp add: doc_style_title_def extraction_defs)
  have f: "title (Website_of_soup ''u'' doc_template) = Some ''X''"
    by (simp add: doc_template_def extraction_defs)
  have g: "soup_title (decompose_all irrelevant doc_template) = Some ''X''"
    by (simp add: doc_template_def extraction_defs)
  have h: "content (Website_of_soup ''u'' doc_template) = ''y''"
    by (simp add: doc_template_def extraction_defs)
  have i: "\<not> sublist ''X'' ''y''"
    by code_simp
  have j: "strip ''X'' = ''X''"
    by (simp add: strip_def isspace_def whitespace_def)
  show ?thesis unfolding a b d e f g h j using c i by simp
qed

end
